theory Spec2Isabelle
  imports Main "HOL-Library.Sublist"
begin

section \<open>Voice task scheduler: a model of \<open>voice_temp.py\<close>\<close>

text \<open>
  The program captures a task by voice, normalises the spoken due date, appends the task
  to a CSV log and registers a daily reminder. The text that a user dictates, and
  everything built from it (task fields, messages, the log file), is a list of Unicode
  code points (\<open>ustring\<close>); the literals of the program, paths and the texts of
  exceptions are lists of 8-bit characters. Python's unbounded integers are \<open>nat\<close> or
  \<open>int\<close>, exceptions the
  left summand of a sum type, and everything the program does to the outside (speech,
  recording, files, messages, the job registry) as an explicit \<open>world\<close> that every
  operation takes and returns.
\<close>

subsection \<open>Exceptions\<close>

text \<open>
  The program raises \<open>ValueError\<close> itself; every other exception comes out of a
  collaborator (the speech services, the sound device, the file system, the messaging
  client, the scheduling library) and is caught only as \<open>Exception\<close>. Both carry the
  text that \<open>str(e)\<close> yields.
\<close>

datatype error = ValueError string | CollaboratorError string

fun str_of :: "error \<Rightarrow> string" where
  "str_of (ValueError m) = m"
| "str_of (CollaboratorError m) = m"

subsection \<open>Text\<close>

text \<open>
  A Python \<open>str\<close> that may hold any text is the list of its code points; \<open>ustr\<close> gives
  the code points of a literal of the program.
\<close>

type_synonym ustring = "nat list"

definition ustr :: "string \<Rightarrow> ustring" where
  "ustr s = map of_char s"

subsection \<open>Decimal rendering\<close>

definition digit_char :: "nat \<Rightarrow> char" where
  "digit_char d = ''0123456789'' ! (d mod 10)"

fun show_nat :: "nat \<Rightarrow> string" where
  "show_nat n = (if n < 10 then [digit_char n] else show_nat (n div 10) @ [digit_char n])"

declare show_nat.simps [simp del]

text \<open>Left padding with zeros to a minimal width, as \<open>%02d\<close> and \<open>%04d\<close> do.\<close>

definition zero_pad :: "nat \<Rightarrow> string \<Rightarrow> string" where
  "zero_pad w s = replicate (w - length s) (CHR ''0'') @ s"


subsection \<open>Dates and times\<close>

text \<open>
  A \<open>datetime.datetime\<close> value, as the natural-language resolver returns it. The time zone
  is left out: \<open>dt.time()\<close> drops it and the two format strings do not print it.
\<close>

record datetime =
  year :: nat
  month :: nat
  day :: nat
  hour :: nat
  minute :: nat
  second :: nat
  microsecond :: nat


text \<open>
  \<open>dt.time() == dt.min.time()\<close>: the time of day of \<open>datetime.min\<close> is 00:00:00.000000, and
  two times are equal when hour, minute, second and microsecond all are.
\<close>

definition is_min_time :: "datetime \<Rightarrow> bool" where
  "is_min_time dt = (hour dt = 0 \<and> minute dt = 0 \<and> second dt = 0 \<and> microsecond dt = 0)"

text \<open>
  \<open>dt.strftime("%Y-%m-%d")\<close> and \<open>dt.strftime("%H:%M")\<close>. CPython hands the format to the
  C library; \<open>%m\<close>, \<open>%d\<close>, \<open>%H\<close> and \<open>%M\<close> are padded to two digits, and \<open>%Y\<close> is the year
  as a decimal number without padding, as glibc writes it: four digits from the year 1000
  on, fewer before.
\<close>

definition strftime_date :: "datetime \<Rightarrow> string" where
  "strftime_date dt =
     show_nat (year dt) @ ''-'' @ zero_pad 2 (show_nat (month dt)) @ ''-'' @
     zero_pad 2 (show_nat (day dt))"

definition strftime_time :: "datetime \<Rightarrow> string" where
  "strftime_time dt = zero_pad 2 (show_nat (hour dt)) @ '':'' @ zero_pad 2 (show_nat (minute dt))"

text \<open>
  \<open>TaskManager.parse_datetime\<close>. The resolver \<open>dateparser.parse\<close> is a collaborator and a
  parameter here: it returns a datetime or \<open>None\<close>.
\<close>

definition parse_datetime :: "(ustring \<Rightarrow> datetime option) \<Rightarrow> ustring \<Rightarrow> error + string \<times> string" where
  "parse_datetime dateparser_parse text =
     (case dateparser_parse text of
        None \<Rightarrow> Inl (ValueError ''Could not parse datetime'')
      | Some dt \<Rightarrow>
          let dt' = (if is_min_time dt then dt\<lparr>hour := 12, minute := 0\<rparr> else dt)
          in Inr (strftime_date dt', strftime_time dt'))"



subsection \<open>Text helpers\<close>

definition show_int :: "int \<Rightarrow> string" where
  "show_int i = (if i < 0 then ''-'' @ show_nat (nat (- i)) else show_nat (nat i))"

text \<open>
  The code points that \<open>str.strip()\<close> removes, those for which \<open>str.isspace\<close> holds:
  U+0009 to U+000D, U+001C to U+0020, U+0085, U+00A0, U+1680, U+2000 to U+200A, U+2028,
  U+2029, U+202F, U+205F and U+3000.
\<close>

definition is_space :: "nat \<Rightarrow> bool" where
  "is_space c =
     (c \<in> {0x09, 0x0A, 0x0B, 0x0C, 0x0D, 0x1C, 0x1D, 0x1E, 0x1F, 0x20, 0x85, 0xA0, 0x1680,
            0x2000, 0x2001, 0x2002, 0x2003, 0x2004, 0x2005, 0x2006, 0x2007, 0x2008, 0x2009,
            0x200A, 0x2028, 0x2029, 0x202F, 0x205F, 0x3000})"

definition strip :: "ustring \<Rightarrow> ustring" where
  "strip s = rev (dropWhile is_space (rev (dropWhile is_space s)))"

text \<open>A text between two apostrophes, as the f-strings of the program write it.\<close>

definition quoted :: "ustring \<Rightarrow> ustring" where
  "quoted s = [0x27] @ s @ [0x27]"

text \<open>\<open>os.path.join\<close> on two components (POSIX).\<close>

definition os_path_join :: "string \<Rightarrow> string \<Rightarrow> string" where
  "os_path_join a b =
     (if b \<noteq> [] \<and> hd b = CHR ''/'' then b
      else if a = [] \<or> last a = CHR ''/'' then a @ b
      else a @ ''/'' @ b)"

subsection \<open>Configuration and tasks\<close>

record TaskConfig =
  csv_file :: string
  sample_rate :: int
  channels :: int
  record_duration :: int
  max_retries :: int
  temp_dir :: string

text \<open>The defaults of the dataclass; \<open>home\<close> is \<open>os.path.expanduser('~')\<close>.\<close>

definition default_config :: "string \<Rightarrow> TaskConfig" where
  "default_config home =
     \<lparr>csv_file = ''tasks.csv'', sample_rate = 16000, channels = 1, record_duration = 3,
      max_retries = 3, temp_dir = os_path_join home ''voice_scheduler_temp''\<rparr>"

record Task =
  name :: ustring
  due_date :: ustring
  deadline_time :: ustring

subsection \<open>The collaborators and the world\<close>

text \<open>
  What the collaborators answer is fixed by an environment: each one is a function of
  the number of calls made to it so far. \<open>Some m\<close> in a \<open>_raises\<close> field means that
  this call raises an exception whose text is \<open>m\<close>. \<open>encode_error\<close> is the text of the
  exception that the UTF-8 codec raises for a text it cannot encode, and \<open>schedule_at\<close>
  is how the scheduling library reads a time of day: the second of the day, or the text
  of the exception with which it refuses the string.
\<close>

record env =
  tts_raises :: "nat \<Rightarrow> string option"
  record_raises :: "nat \<Rightarrow> string option"
  save_raises :: "nat \<Rightarrow> string option"
  time_time :: "nat \<Rightarrow> nat"
  getpid :: nat
  transcribe :: "nat \<Rightarrow> string + ustring"
  remove_raises :: "nat \<Rightarrow> string option"
  dateparser_parse :: "ustring \<Rightarrow> datetime option"
  open_raises :: "nat \<Rightarrow> string option"
  twilio_raises :: "nat \<Rightarrow> string option"
  encode_error :: "ustring \<Rightarrow> string"
  schedule_at :: "ustring \<Rightarrow> string + nat"

datatype level = INFO | WARNING | ERROR

text \<open>
  A registered job of the scheduling library: the time of day in seconds, the next run
  in seconds of wall-clock time, whether the job was cancelled, and the task that the
  closure \<open>send_reminder\<close> captured.
\<close>

record job =
  at_time :: nat
  next_run :: nat
  cancelled :: bool
  job_task :: Task

record world =
  spoken :: "string list"
  tts_calls :: nat
  record_calls :: nat
  save_calls :: nat
  stt_calls :: nat
  remove_calls :: nat
  open_calls :: nat
  files :: "string set"
  csv_files :: "string \<Rightarrow> ustring option"
  dispatched :: "ustring list"
  jobs :: "job list"
  logs :: "(level \<times> ustring) list"

definition log_text :: "level \<Rightarrow> ustring \<Rightarrow> world \<Rightarrow> world" where
  "log_text lvl msg w = w\<lparr>logs := logs w @ [(lvl, msg)]\<rparr>"

definition log :: "level \<Rightarrow> string \<Rightarrow> world \<Rightarrow> world" where
  "log lvl msg w = log_text lvl (ustr msg) w"

subsection \<open>AudioManager\<close>

definition get_temp_path :: "env \<Rightarrow> TaskConfig \<Rightarrow> nat \<Rightarrow> string \<Rightarrow> string" where
  "get_temp_path E cfg n ext =
     os_path_join (temp_dir cfg)
       (''temp_'' @ show_nat (time_time E n) @ ''_'' @ show_nat (getpid E) @ ext)"

text \<open>
  \<open>text_to_speech\<close>: the synthesis, conversion and playback are one collaborator call.
  Its two temporary files live only inside the call and are not part of \<open>files\<close>.
  A failure is logged and raised again.
\<close>

definition text_to_speech :: "env \<Rightarrow> string \<Rightarrow> world \<Rightarrow> (error + unit) \<times> world" where
  "text_to_speech E text w =
     (let n = tts_calls w; w1 = w\<lparr>tts_calls := Suc n\<rparr>
      in case tts_raises E n of
           Some m \<Rightarrow> (Inl (CollaboratorError m), log ERROR (''Error in text_to_speech: '' @ m) w1)
         | None \<Rightarrow> (Inr (), w1\<lparr>spoken := spoken w1 @ [text]\<rparr>))"

text \<open>\<open>record_audio\<close> returns the recording, named here by its number.\<close>

definition record_audio :: "env \<Rightarrow> TaskConfig \<Rightarrow> world \<Rightarrow> (error + nat) \<times> world" where
  "record_audio E cfg w =
     (let n = record_calls w;
          w1 = log INFO (''Recording for '' @ show_int (record_duration cfg) @ '' seconds...'')
                 (w\<lparr>record_calls := Suc n\<rparr>)
      in case record_raises E n of
           Some m \<Rightarrow> (Inl (CollaboratorError m), log ERROR (''Error recording audio: '' @ m) w1)
         | None \<Rightarrow> (Inr n, w1))"

text \<open>\<open>save_audio\<close>: a failed write leaves no file behind.\<close>

definition save_audio :: "env \<Rightarrow> TaskConfig \<Rightarrow> nat \<Rightarrow> world \<Rightarrow> (error + string) \<times> world" where
  "save_audio E cfg audio w =
     (let n = save_calls w; temp_path = get_temp_path E cfg n ''.wav'';
          w1 = w\<lparr>save_calls := Suc n\<rparr>
      in case save_raises E n of
           Some m \<Rightarrow> (Inl (CollaboratorError m), log ERROR (''Error saving audio: '' @ m) w1)
         | None \<Rightarrow> (Inr temp_path, w1\<lparr>files := insert temp_path (files w1)\<rparr>))"

subsection \<open>TaskManager: the task log\<close>

definition header_row :: "ustring list" where
  "header_row = [ustr ''Task Name'', ustr ''Due Date'', ustr ''Deadline Time'']"

text \<open>
  What \<open>csv.writer\<close> writes for a row with the default dialect: the fields separated by
  commas and ended by carriage return and line feed. A field that holds a comma, a quote,
  a carriage return or a line feed is put between quotes, with each of its quotes
  doubled; a row that is one empty field is written as two quotes.
\<close>

definition csv_special :: "nat \<Rightarrow> bool" where
  "csv_special c = (c = 0x2C \<or> c = 0x22 \<or> c = 0x0D \<or> c = 0x0A)"

definition csv_double_quotes :: "ustring \<Rightarrow> ustring" where
  "csv_double_quotes f = concat (map (\<lambda>c. if c = 0x22 then [0x22, 0x22] else [c]) f)"

definition csv_field :: "ustring \<Rightarrow> ustring" where
  "csv_field f = (if list_ex csv_special f then [0x22] @ csv_double_quotes f @ [0x22] else f)"

fun csv_join :: "ustring list \<Rightarrow> ustring" where
  "csv_join [] = []"
| "csv_join [f] = csv_field f"
| "csv_join (f # g # fs) = csv_field f @ [0x2C] @ csv_join (g # fs)"

definition csv_writerow :: "ustring list \<Rightarrow> ustring" where
  "csv_writerow row = (if row = [[]] then [0x22, 0x22] else csv_join row) @ [0x0D, 0x0A]"


text \<open>
  A text file is the list of the code points it holds, \<open>None\<close> when the file does not
  exist. Opening the file may fail. \<open>_initialize_csv\<close> opens in mode \<open>w\<close> with
  \<open>newline=''\<close>, so the line ends are written as they are.
\<close>

definition initialize_csv :: "env \<Rightarrow> TaskConfig \<Rightarrow> world \<Rightarrow> (error + unit) \<times> world" where
  "initialize_csv E cfg w =
     (if csv_files w (csv_file cfg) = None then
        (let n = open_calls w; w1 = w\<lparr>open_calls := Suc n\<rparr>
         in case open_raises E n of
              Some m \<Rightarrow> (Inl (CollaboratorError m), w1)
            | None \<Rightarrow>
                (Inr (), w1\<lparr>csv_files := (csv_files w1)(csv_file cfg \<mapsto> csv_writerow header_row)\<rparr>))
      else (Inr (), w))"


subsection \<open>Reading the log\<close>














subsection \<open>TaskManager: voice input\<close>

definition speech_to_text :: "env \<Rightarrow> string \<Rightarrow> world \<Rightarrow> (error + ustring) \<times> world" where
  "speech_to_text E audio_path w =
     (let n = stt_calls w; w1 = w\<lparr>stt_calls := Suc n\<rparr>
      in case transcribe E n of
           Inl m \<Rightarrow> (Inl (CollaboratorError m), log ERROR (''Error in speech_to_text: '' @ m) w1)
         | Inr t \<Rightarrow> (Inr (strip t), w1))"

definition apology :: string where
  "apology = ''Sorry, I didn'' @ [CHR 0x27] @ ''t catch that. Please try again.''"

text \<open>
  The \<open>try\<close> block of one attempt. It yields what happened (\<open>Inl e\<close>: an exception,
  \<open>Inr (Some text)\<close>: \<open>return text\<close>, \<open>Inr None\<close>: the block ran to its end), the value of
  \<open>audio_path\<close> at that point, and the world.
\<close>

definition try_block :: "env \<Rightarrow> TaskConfig \<Rightarrow> world \<Rightarrow> (error + ustring option) \<times> string option \<times> world" where
  "try_block E cfg w =
     (case record_audio E cfg w of
        (Inl e, w1) \<Rightarrow> (Inl e, None, w1)
      | (Inr audio, w1) \<Rightarrow>
          (case save_audio E cfg audio w1 of
             (Inl e, w2) \<Rightarrow> (Inl e, None, w2)
           | (Inr audio_path, w2) \<Rightarrow>
               (case speech_to_text E audio_path w2 of
                  (Inl e, w3) \<Rightarrow> (Inl e, Some audio_path, w3)
                | (Inr text, w3) \<Rightarrow>
                    if text \<noteq> [] then (Inr (Some text), Some audio_path, w3)
                    else (case text_to_speech E apology w3 of
                            (Inl e, w4) \<Rightarrow> (Inl e, Some audio_path, w4)
                          | (Inr _, w4) \<Rightarrow> (Inr None, Some audio_path, w4)))))"

text \<open>The \<open>finally\<close> block: remove the audio file if there is one; a failure is a warning.\<close>

definition finally_block :: "env \<Rightarrow> string option \<Rightarrow> world \<Rightarrow> world" where
  "finally_block E audio_path w =
     (case audio_path of
        None \<Rightarrow> w
      | Some p \<Rightarrow>
          if p \<noteq> [] \<and> p \<in> files w then
            (let n = remove_calls w; w1 = w\<lparr>remove_calls := Suc n\<rparr>
             in case remove_raises E n of
                  Some m \<Rightarrow> log WARNING (''Failed to remove temporary file '' @ p @ '': '' @ m) w1
                | None \<Rightarrow> w1\<lparr>files := files w1 - {p}\<rparr>)
          else w)"

text \<open>One pass of the \<open>for\<close> loop: \<open>Some text\<close> leaves the function, \<open>None\<close> goes on.\<close>

definition attempt :: "env \<Rightarrow> TaskConfig \<Rightarrow> nat \<Rightarrow> world \<Rightarrow> ustring option \<times> world" where
  "attempt E cfg i w =
     (case try_block E cfg w of
        (Inl e, audio_path, w1) \<Rightarrow>
          (None,
           finally_block E audio_path
             (log ERROR (''Error in voice input attempt '' @ show_nat (i + 1) @ '': '' @ str_of e) w1))
      | (Inr r, audio_path, w1) \<Rightarrow> (r, finally_block E audio_path w1))"

fun retry_loop :: "env \<Rightarrow> TaskConfig \<Rightarrow> nat list \<Rightarrow> world \<Rightarrow> (error + ustring) \<times> world" where
  "retry_loop E cfg [] w = (Inl (ValueError ''Maximum retries reached''), w)"
| "retry_loop E cfg (i # rest) w =
     (case attempt E cfg i w of
        (Some text, w1) \<Rightarrow> (Inr text, w1)
      | (None, w1) \<Rightarrow> retry_loop E cfg rest w1)"

text \<open>\<open>get_voice_input\<close>: \<open>if prompt\<close> holds for a prompt that is neither \<open>None\<close> nor empty.\<close>

definition get_voice_input :: "env \<Rightarrow> TaskConfig \<Rightarrow> string option \<Rightarrow> world \<Rightarrow> (error + ustring) \<times> world" where
  "get_voice_input E cfg prompt w =
     (case (case prompt of
              None \<Rightarrow> (Inr (), w)
            | Some p \<Rightarrow> if p \<noteq> [] then text_to_speech E p w else (Inr (), w)) of
        (Inl e, w1) \<Rightarrow> (Inl e, w1)
      | (Inr _, w1) \<Rightarrow> retry_loop E cfg [0..<nat (max_retries cfg)] w1)"

subsection \<open>TaskManager: creating a task\<close>

definition name_prompt :: string where
  "name_prompt = ''Please say the task name:''"

definition due_prompt :: string where
  "due_prompt =
     ''When is this due? For example, you can say '' @ [CHR 0x27] @ ''tomorrow at 3pm'' @ [CHR 0x27]"

text \<open>The \<open>try\<close> block of \<open>create_task\<close>.\<close>

definition create_task_body :: "env \<Rightarrow> TaskConfig \<Rightarrow> world \<Rightarrow> (error + Task) \<times> world" where
  "create_task_body E cfg w =
     (case get_voice_input E cfg (Some name_prompt) w of
        (Inl e, w1) \<Rightarrow> (Inl e, w1)
      | (Inr task_name, w1) \<Rightarrow>
          (case get_voice_input E cfg (Some due_prompt) w1 of
             (Inl e, w2) \<Rightarrow> (Inl e, w2)
           | (Inr date_str, w2) \<Rightarrow>
               (case parse_datetime (dateparser_parse E) date_str of
                  Inl e \<Rightarrow> (Inl e, w2)
                | Inr (d, t) \<Rightarrow>
                    (Inr \<lparr>name = task_name, due_date = ustr d, deadline_time = ustr t\<rparr>, w2))))"

definition create_task :: "env \<Rightarrow> TaskConfig \<Rightarrow> world \<Rightarrow> (error + Task option) \<times> world" where
  "create_task E cfg w =
     (case create_task_body E cfg w of
        (Inr task, w1) \<Rightarrow> (Inr (Some task), w1)
      | (Inl e, w1) \<Rightarrow>
          (case text_to_speech E (''Error creating task: '' @ str_of e)
                  (log ERROR (''Error creating task: '' @ str_of e) w1) of
             (Inl e', w2) \<Rightarrow> (Inl e', w2)
           | (Inr _, w2) \<Rightarrow> (Inr None, w2)))"

subsection \<open>TaskManager: messages\<close>

text \<open>
  \<open>send_whatsapp_message\<close>: \<open>dispatched\<close> lists the body of every call made to the
  messaging client, delivered or not; its length numbers the calls.
\<close>

definition send_whatsapp_message :: "env \<Rightarrow> ustring \<Rightarrow> world \<Rightarrow> (error + unit) \<times> world" where
  "send_whatsapp_message E message w =
     (let n = length (dispatched w); w1 = w\<lparr>dispatched := dispatched w @ [message]\<rparr>
      in case twilio_raises E n of
           Some m \<Rightarrow> (Inl (CollaboratorError m), log ERROR (''Error sending WhatsApp message: '' @ m) w1)
         | None \<Rightarrow> (Inr (), log INFO ''WhatsApp message sent successfully'' w1))"

definition reminder_message :: "Task \<Rightarrow> ustring" where
  "reminder_message task =
     ustr ''Reminder: Task '' @ quoted (name task) @ ustr '' is due on '' @ due_date task @
     ustr '' at '' @ deadline_time task"

definition confirmation_message :: "Task \<Rightarrow> ustring" where
  "confirmation_message task =
     ustr ''Task Created: '' @ quoted (name task) @ ustr '' has been scheduled. It is due on '' @
     due_date task @ ustr '' at '' @ deadline_time task"

definition send_confirmation :: "env \<Rightarrow> Task \<Rightarrow> world \<Rightarrow> (error + unit) \<times> world" where
  "send_confirmation E task w = send_whatsapp_message E (confirmation_message task) w"

text \<open>
  What a job function hands back to the scheduler. The closure \<open>send_reminder\<close> has no
  \<open>return\<close> statement, so it returns \<open>None\<close>.
\<close>

datatype job_return = ReturnsNone | CancelJob

definition send_reminder :: "env \<Rightarrow> Task \<Rightarrow> world \<Rightarrow> (error + job_return) \<times> world" where
  "send_reminder E task w =
     (case send_whatsapp_message E (reminder_message task) w of
        (Inl e, w1) \<Rightarrow> (Inl e, w1)
      | (Inr _, w1) \<Rightarrow> (Inr ReturnsNone, w1))"

subsection \<open>The scheduler\<close>

text \<open>
  Modelled from the spec: the scheduling library behind \<open>schedule.every().day.at(t).do(f)\<close>
  and \<open>schedule.run_pending()\<close> is not part of the source. Following the spec, a trigger is a
  time of day with a callback in a process-wide registry; it fires once per day at that
  time; \<open>run_pending\<close> checks the wall clock against all registered triggers and fires any
  whose time has arrived; there is no catch-up for missed days. The wall clock counts
  seconds from some local midnight, and every call reads it once. A job is taken out of
  service only when its function returns \<open>CancelJob\<close>.
\<close>

definition seconds_per_day :: nat where
  "seconds_per_day = 86400"

text \<open>The first moment after \<open>now\<close> at which the time of day is \<open>at\<close>.\<close>

definition next_run_after :: "nat \<Rightarrow> nat \<Rightarrow> nat" where
  "next_run_after now at =
     (if now mod seconds_per_day < at then (now div seconds_per_day) * seconds_per_day + at
      else (now div seconds_per_day + 1) * seconds_per_day + at)"

definition every_day_at_do :: "env \<Rightarrow> nat \<Rightarrow> ustring \<Rightarrow> Task \<Rightarrow> world \<Rightarrow> (error + unit) \<times> world" where
  "every_day_at_do E now time_str task w =
     (case schedule_at E time_str of
        Inl m \<Rightarrow> (Inl (CollaboratorError m), w)
      | Inr at \<Rightarrow>
          (Inr (),
           w\<lparr>jobs := jobs w @
                [\<lparr>at_time = at, next_run = next_run_after now at, cancelled = False,
                  job_task = task\<rparr>]\<rparr>))"

text \<open>\<open>TaskManager.schedule_reminder\<close>, called when the wall clock shows \<open>now\<close>.\<close>

definition schedule_reminder :: "env \<Rightarrow> nat \<Rightarrow> Task \<Rightarrow> world \<Rightarrow> (error + unit) \<times> world" where
  "schedule_reminder E now task w =
     (case every_day_at_do E now (deadline_time task) task w of
        (Inl e, w1) \<Rightarrow> (Inl e, w1)
      | (Inr _, w1) \<Rightarrow>
          (Inr (),
           log_text INFO (ustr ''Reminder scheduled for task '' @ quoted (name task) @
                          ustr '' at '' @ deadline_time task) w1))"

definition should_run :: "nat \<Rightarrow> job \<Rightarrow> bool" where
  "should_run now j = (\<not> cancelled j \<and> next_run j \<le> now)"

text \<open>Running the job at position \<open>i\<close> of the registry: call it, then plan its next run.\<close>

definition run_job :: "env \<Rightarrow> nat \<Rightarrow> nat \<Rightarrow> world \<Rightarrow> (error + unit) \<times> world" where
  "run_job E now i w =
     (case send_reminder E (job_task (jobs w ! i)) w of
        (Inl e, w1) \<Rightarrow> (Inl e, w1)
      | (Inr ret, w1) \<Rightarrow>
          (Inr (),
           w1\<lparr>jobs := (jobs w1)[i := (jobs w1 ! i)
                  \<lparr>next_run := next_run_after now (at_time (jobs w1 ! i)),
                   cancelled := (ret = CancelJob)\<rparr>]\<rparr>))"

fun run_jobs :: "env \<Rightarrow> nat \<Rightarrow> nat list \<Rightarrow> world \<Rightarrow> (error + unit) \<times> world" where
  "run_jobs E now [] w = (Inr (), w)"
| "run_jobs E now (i # rest) w =
     (case run_job E now i w of
        (Inl e, w1) \<Rightarrow> (Inl e, w1)
      | (Inr _, w1) \<Rightarrow> run_jobs E now rest w1)"

text \<open>The jobs that are due, by position, in the order of their planned runs.\<close>

definition runnable_jobs :: "nat \<Rightarrow> world \<Rightarrow> nat list" where
  "runnable_jobs now w =
     sort_key (\<lambda>i. next_run (jobs w ! i))
       (filter (\<lambda>i. should_run now (jobs w ! i)) [0..<length (jobs w)])"

definition run_pending :: "env \<Rightarrow> nat \<Rightarrow> world \<Rightarrow> (error + unit) \<times> world" where
  "run_pending E now w = run_jobs E now (runnable_jobs now w) w"

text \<open>
  The background loop of \<open>main\<close>, \<open>while True: schedule.run_pending(); time.sleep(1)\<close>, over
  the clock readings of its passes up to the interrupt. An exception of a job ends it.
\<close>

fun poll :: "env \<Rightarrow> nat list \<Rightarrow> world \<Rightarrow> (error + unit) \<times> world" where
  "poll E [] w = (Inr (), w)"
| "poll E (now # later) w =
     (case run_pending E now w of
        (Inl e, w1) \<Rightarrow> (Inl e, w1)
      | (Inr _, w1) \<Rightarrow> poll E later w1)"

subsection \<open>Example collaborators\<close>

text \<open>
  A resolver for the examples. It stands for \<open>dateparser.parse\<close> called on 4 November 2026
  at 10:30:15.250000, for five texts: a date without a time resolves to midnight of that
  date, \<open>tomorrow\<close> to the same time of day one day later, and a text that names a time to
  that time.
\<close>

definition example_resolver :: "ustring \<Rightarrow> datetime option" where
  "example_resolver text =
     (if text = ustr ''2026-11-05'' \<or> text = ustr ''tomorrow at midnight'' then
        Some \<lparr>year = 2026, month = 11, day = 5, hour = 0, minute = 0, second = 0,
              microsecond = 0\<rparr>
      else if text = ustr ''tomorrow'' then
        Some \<lparr>year = 2026, month = 11, day = 5, hour = 10, minute = 30, second = 15,
              microsecond = 250000\<rparr>
      else if text = ustr ''tomorrow at 3pm'' then
        Some \<lparr>year = 2026, month = 11, day = 5, hour = 15, minute = 0, second = 0,
              microsecond = 0\<rparr>
      else if text = ustr ''tomorrow at 9am'' then
        Some \<lparr>year = 2026, month = 11, day = 5, hour = 9, minute = 0, second = 0,
              microsecond = 0\<rparr>
      else None)"

text \<open>A fresh process: nothing said, no file, no job.\<close>

definition empty_world :: world where
  "empty_world =
     \<lparr>spoken = [], tts_calls = 0, record_calls = 0, save_calls = 0, stt_calls = 0,
      remove_calls = 0, open_calls = 0, files = {}, csv_files = (\<lambda>path. None),
      dispatched = [], jobs = [], logs = []\<rparr>"

text \<open>
  A reading of times of day for the examples: \<open>HH:MM\<close> in decimal digits, with the hour
  below 24 and the minute below 60, and nothing else.
\<close>

definition example_at :: "ustring \<Rightarrow> string + nat" where
  "example_at s =
     (if length s = 5 \<and> s ! 2 = 0x3A \<and> list_all (\<lambda>c. 0x30 \<le> c \<and> c \<le> 0x39) (take 2 s @ drop 3 s) \<and>
         10 * (s ! 0 - 0x30) + (s ! 1 - 0x30) < 24 \<and> 10 * (s ! 3 - 0x30) + (s ! 4 - 0x30) < 60
      then Inr (3600 * (10 * (s ! 0 - 0x30) + (s ! 1 - 0x30)) +
                60 * (10 * (s ! 3 - 0x30) + (s ! 4 - 0x30)))
      else Inl ''Invalid time format for a daily job'')"

text \<open>
  Collaborators that never fail, for given transcriptions: a recording is saved every
  three seconds, and the resolver is the one above.
\<close>

definition reliable_env :: "(nat \<Rightarrow> string + ustring) \<Rightarrow> env" where
  "reliable_env answers =
     \<lparr>tts_raises = (\<lambda>n. None), record_raises = (\<lambda>n. None), save_raises = (\<lambda>n. None),
      time_time = (\<lambda>n. 1700000000 + 3 * n), getpid = 4242, transcribe = answers,
      remove_raises = (\<lambda>n. None), dateparser_parse = example_resolver,
      open_raises = (\<lambda>n. None), twilio_raises = (\<lambda>n. None),
      encode_error = (\<lambda>s. ''surrogates not allowed''), schedule_at = example_at\<rparr>"





text \<open>
  Speech-to-text raises on every call; in the first environment text-to-speech raises as
  well, in the second \<open>os.remove\<close> does.
\<close>

definition speech_down_env :: env where
  "speech_down_env =
     (reliable_env (\<lambda>n. Inl ''service unavailable''))
       \<lparr>tts_raises := (\<lambda>n. Some ''service unavailable'')\<rparr>"

definition remove_fails_env :: env where
  "remove_fails_env =
     (reliable_env (\<lambda>n. Inl ''service unavailable''))
       \<lparr>remove_raises := (\<lambda>n. Some ''permission denied'')\<rparr>"

text \<open>The same collaborators while the text-to-speech service is unavailable.\<close>

definition tts_down_env :: env where
  "tts_down_env =
     (reliable_env (\<lambda>n. Inr (ustr ''pay rent'')))\<lparr>tts_raises := (\<lambda>n. Some ''service unavailable'')\<rparr>"

section \<open>Properties\<close>

subsection \<open>Rendering of numbers\<close>



lemma show_nat_nonempty: "show_nat n \<noteq> []"
  by (subst show_nat.simps) simp

lemma show_nat_length_1: "n < 10 \<Longrightarrow> length (show_nat n) = 1"
  by (subst show_nat.simps) simp

lemma show_nat_length_2: "n < 100 \<Longrightarrow> length (show_nat n) \<le> 2"
  by (subst show_nat.simps) (simp add: show_nat_length_1)

lemma show_nat_length_3: "n < 1000 \<Longrightarrow> length (show_nat n) \<le> 3"
proof -
  assume "n < 1000"
  then have "n div 10 < 100" by simp
  then have "length (show_nat (n div 10)) \<le> 2" by (rule show_nat_length_2)
  then show ?thesis by (subst show_nat.simps) simp
qed

lemma show_nat_length_4: "n < 10000 \<Longrightarrow> length (show_nat n) \<le> 4"
proof -
  assume "n < 10000"
  then have "n div 10 < 1000" by simp
  then have "length (show_nat (n div 10)) \<le> 3" by (rule show_nat_length_3)
  then show ?thesis by (subst show_nat.simps) simp
qed




lemma show_nat_small:
  "show_nat 0 = ''0''" "show_nat 12 = ''12''" "show_nat 15 = ''15''"
  by (simp_all add: show_nat.simps digit_char_def)

subsection \<open>Date and time normalisation\<close>







lemma ustr_append: "ustr (a @ b) = ustr a @ ustr b"
  by (simp add: ustr_def)











lemma strftime_time_noon: "hour dt = 12 \<Longrightarrow> minute dt = 0 \<Longrightarrow> strftime_time dt = ''12:00''"
  by (simp add: strftime_time_def show_nat_small zero_pad_def)







text \<open>
  C5. When the resolver returns no value for a text, \<open>parse_datetime\<close> raises
  \<open>ValueError("Could not parse datetime")\<close> instead of returning a pair.
\<close>

theorem parse_datetime_unparseable:
  assumes "resolver text = None"
  shows "parse_datetime resolver text = Inl (ValueError ''Could not parse datetime'')"
  using assms by (simp add: parse_datetime_def)

theorem parse_datetime_unparseable_witness:
  "example_resolver (ustr ''not a date'') = None \<and>
   parse_datetime example_resolver (ustr ''not a date'') =
     Inl (ValueError ''Could not parse datetime'')"
proof -
  have n: "example_resolver (ustr ''not a date'') = None"
    by (simp add: example_resolver_def ustr_def)
  show ?thesis
    using n parse_datetime_unparseable [of example_resolver "ustr ''not a date''"]
    by simp
qed

text \<open>
  C10. Whenever the resolved datetime has the time of day 00:00:00.000000,
  \<open>parse_datetime\<close> returns the time \<open>12:00\<close>, whatever the text was: two texts that
  resolve to the same datetime get the same answer, so a midnight that was asked for is
  moved to noon like a midnight that stands for a missing time.
\<close>

theorem parse_datetime_midnight_becomes_noon:
  assumes "resolver text = Some dt" and "is_min_time dt"
  shows "parse_datetime resolver text = Inr (strftime_date dt, ''12:00'') \<and>
         (\<forall>text'. resolver text' = Some dt \<longrightarrow>
            parse_datetime resolver text' = parse_datetime resolver text)"
proof -
  let ?dt = "dt\<lparr>hour := 12, minute := 0\<rparr>"
  have "strftime_date ?dt = strftime_date dt"
    by (simp add: strftime_date_def)
  moreover have "strftime_time ?dt = ''12:00''"
    by (rule strftime_time_noon) simp_all
  ultimately show ?thesis
    using assms by (simp add: parse_datetime_def Let_def)
qed

theorem parse_datetime_midnight_becomes_noon_witness:
  "parse_datetime example_resolver (ustr ''tomorrow at midnight'') =
     Inr (''2026-11-05'', ''12:00'') \<and>
   parse_datetime example_resolver (ustr ''2026-11-05'') =
     parse_datetime example_resolver (ustr ''tomorrow at midnight'')"
proof -
  let ?a = "\<lparr>year = 2026, month = 11, day = 5, hour = 0, minute = 0, second = 0, microsecond = 0\<rparr>"
  have a: "example_resolver (ustr ''tomorrow at midnight'') = Some ?a"
    and b: "example_resolver (ustr ''2026-11-05'') = Some ?a"
    by (simp_all add: example_resolver_def ustr_def)
  have m: "is_min_time ?a"
    by (simp add: is_min_time_def)
  have d: "strftime_date ?a = ''2026-11-05''"
    by (simp add: strftime_date_def zero_pad_def show_nat.simps digit_char_def)
  show ?thesis
    using parse_datetime_midnight_becomes_noon
      [of example_resolver "ustr ''tomorrow at midnight''" ?a, OF a m] b d
    by simp
qed

subsection \<open>The task log\<close>

lemma initialize_csv_existing:
  "csv_files w (csv_file cfg) \<noteq> None \<Longrightarrow> initialize_csv E cfg w = (Inr (), w)"
  by (auto simp: initialize_csv_def)

lemma initialize_csv_missing:
  assumes "csv_files w (csv_file cfg) = None" and "open_raises E (open_calls w) = None"
  shows "initialize_csv E cfg w =
           (Inr (), w\<lparr>open_calls := Suc (open_calls w),
                      csv_files := (csv_files w)(csv_file cfg \<mapsto> csv_writerow header_row)\<rparr>)"
  using assms by (simp add: initialize_csv_def Let_def)

lemma header_text: "csv_writerow header_row = ustr ''Task Name,Due Date,Deadline Time'' @ [13, 10]"
  by (simp add: csv_writerow_def csv_field_def csv_special_def header_row_def ustr_def)

text \<open>
  C6. Where the log file can be opened, \<open>_initialize_csv\<close> returns normally; a second call
  changes nothing; starting without a log, the log after two calls holds the header row
  and nothing else; and the call writes to the log exactly when there was none.
\<close>

theorem initialize_csv_idempotent:
  assumes "open_raises E (open_calls w) = None"
  shows "fst (initialize_csv E cfg w) = Inr () \<and>
         initialize_csv E cfg (snd (initialize_csv E cfg w)) =
           (Inr (), snd (initialize_csv E cfg w)) \<and>
         (csv_files w (csv_file cfg) = None \<longrightarrow>
            csv_files (snd (initialize_csv E cfg (snd (initialize_csv E cfg w)))) (csv_file cfg) =
              Some (csv_writerow header_row)) \<and>
         (csv_files (snd (initialize_csv E cfg w)) (csv_file cfg) \<noteq> csv_files w (csv_file cfg)) =
           (csv_files w (csv_file cfg) = None)"
proof (cases "csv_files w (csv_file cfg) = None")
  case True
  note m = initialize_csv_missing [OF True assms]
  have "csv_files (snd (initialize_csv E cfg w)) (csv_file cfg) \<noteq> None"
    by (simp add: m)
  then have "initialize_csv E cfg (snd (initialize_csv E cfg w)) =
               (Inr (), snd (initialize_csv E cfg w))"
    by (rule initialize_csv_existing)
  then show ?thesis
    using True by (simp add: m)
next
  case False
  then have "initialize_csv E cfg w = (Inr (), w)"
    by (rule initialize_csv_existing)
  then show ?thesis
    using False by auto
qed

theorem initialize_csv_idempotent_witness:
  "open_raises (reliable_env (\<lambda>n. Inr [])) (open_calls empty_world) = None \<and>
   csv_files empty_world ''tasks.csv'' = None \<and>
   csv_files (snd (initialize_csv (reliable_env (\<lambda>n. Inr [])) (default_config ''/home/u'')
      (snd (initialize_csv (reliable_env (\<lambda>n. Inr [])) (default_config ''/home/u'') empty_world))))
      ''tasks.csv'' = Some (ustr ''Task Name,Due Date,Deadline Time'' @ [13, 10])"
proof -
  have h: "open_raises (reliable_env (\<lambda>n. Inr [])) (open_calls empty_world) = None"
    by (simp add: reliable_env_def)
  have c: "csv_file (default_config ''/home/u'') = ''tasks.csv''"
    by (simp add: default_config_def)
  have n: "csv_files empty_world ''tasks.csv'' = None"
    by (simp add: empty_world_def)
  show ?thesis
    using initialize_csv_idempotent [OF h, of "default_config ''/home/u''"] h n
    by (simp add: c header_text initialize_csv_def Let_def empty_world_def reliable_env_def)
qed

subsection \<open>Rows written and rows read\<close>

























subsection \<open>Voice input\<close>

lemmas voice_defs =
  attempt_def try_block_def record_audio_def save_audio_def speech_to_text_def
  text_to_speech_def finally_block_def log_def log_text_def Let_def

lemma os_path_join_nonempty: "b \<noteq> [] \<Longrightarrow> os_path_join a b \<noteq> []"
  by (simp add: os_path_join_def)

lemma get_temp_path_nonempty: "get_temp_path E cfg n ext \<noteq> []"
  unfolding get_temp_path_def by (rule os_path_join_nonempty) simp

lemma text_to_speech_keeps:
  "record_calls (snd (text_to_speech E text w)) = record_calls w"
  "save_calls (snd (text_to_speech E text w)) = save_calls w"
  "stt_calls (snd (text_to_speech E text w)) = stt_calls w"
  "files (snd (text_to_speech E text w)) = files w"
  "tts_calls (snd (text_to_speech E text w)) = Suc (tts_calls w)"
  by (simp_all add: text_to_speech_def log_def log_text_def Let_def split: option.splits)

lemma text_to_speech_ok:
  "tts_raises E (tts_calls w) = None \<Longrightarrow>
   text_to_speech E text w = (Inr (), w\<lparr>tts_calls := Suc (tts_calls w), spoken := spoken w @ [text]\<rparr>)"
  by (simp add: text_to_speech_def Let_def)

lemma attempt_record_calls: "record_calls (snd (attempt E cfg i w)) = Suc (record_calls w)"
  by (simp add: voice_defs split: option.splits sum.splits)

lemma attempt_save_calls:
  "save_calls w \<le> save_calls (snd (attempt E cfg i w)) \<and>
   save_calls (snd (attempt E cfg i w)) \<le> Suc (save_calls w)"
  by (simp add: voice_defs split: option.splits sum.splits)

lemma attempt_files:
  assumes "\<forall>n. remove_raises E n = None"
  shows "files (snd (attempt E cfg i w)) \<subseteq> files w"
  using assms get_temp_path_nonempty [of E cfg "save_calls w" "''.wav''"]
  by (auto simp: voice_defs split: option.splits sum.splits)

lemma attempt_removes:
  assumes "\<forall>n. remove_raises E n = None"
    and "save_calls (snd (attempt E cfg i w)) = Suc (save_calls w)"
    and "save_raises E (save_calls w) = None"
  shows "get_temp_path E cfg (save_calls w) ''.wav'' \<notin> files (snd (attempt E cfg i w))"
  using assms get_temp_path_nonempty [of E cfg "save_calls w" "''.wav''"]
  by (auto simp: voice_defs split: option.splits sum.splits)

lemma attempt_stt_raises:
  assumes "\<forall>n. isl (transcribe E n)"
  shows "fst (attempt E cfg i w) = None"
proof -
  obtain m where "transcribe E (stt_calls w) = Inl m"
    using assms by (cases "transcribe E (stt_calls w)") (auto dest: spec [of _ "stt_calls w"])
  then show ?thesis
    by (simp add: voice_defs split: option.splits sum.splits)
qed

lemma attempt_all_called:
  assumes "\<forall>n. record_raises E n = None \<and> save_raises E n = None"
  shows "stt_calls (snd (attempt E cfg i w)) = Suc (stt_calls w) \<and>
         save_calls (snd (attempt E cfg i w)) = Suc (save_calls w)"
  using assms by (simp add: voice_defs split: option.splits sum.splits)

lemma retry_loop_exhausted:
  assumes "\<forall>n. isl (transcribe E n)"
  shows "fst (retry_loop E cfg ns w) = Inl (ValueError ''Maximum retries reached'') \<and>
         record_calls (snd (retry_loop E cfg ns w)) = record_calls w + length ns"
proof (induction ns arbitrary: w)
  case Nil
  show ?case by simp
next
  case (Cons i ns)
  obtain w1 where a: "attempt E cfg i w = (None, w1)"
    using attempt_stt_raises [OF assms, of cfg i w] by (cases "attempt E cfg i w") simp
  have "record_calls w1 = Suc (record_calls w)"
    using attempt_record_calls [of E cfg i w] a by simp
  then show ?case
    using Cons.IH [of w1] a by simp
qed

lemma retry_loop_all_called:
  assumes "\<forall>n. isl (transcribe E n)"
    and "\<forall>n. record_raises E n = None \<and> save_raises E n = None"
  shows "stt_calls (snd (retry_loop E cfg ns w)) = stt_calls w + length ns \<and>
         save_calls (snd (retry_loop E cfg ns w)) = save_calls w + length ns"
proof (induction ns arbitrary: w)
  case Nil
  show ?case by simp
next
  case (Cons i ns)
  obtain w1 where a: "attempt E cfg i w = (None, w1)"
    using attempt_stt_raises [OF assms(1), of cfg i w] by (cases "attempt E cfg i w") simp
  have "stt_calls w1 = Suc (stt_calls w) \<and> save_calls w1 = Suc (save_calls w)"
    using attempt_all_called [OF assms(2), of cfg i w] a by simp
  then show ?case
    using Cons.IH [of w1] a by simp
qed

lemma retry_loop_files:
  assumes "\<forall>n. remove_raises E n = None"
  shows "files (snd (retry_loop E cfg ns w)) \<subseteq> files w"
proof (induction ns arbitrary: w)
  case Nil
  show ?case by simp
next
  case (Cons i ns)
  obtain r w1 where a: "attempt E cfg i w = (r, w1)"
    by (cases "attempt E cfg i w")
  have f: "files w1 \<subseteq> files w"
    using attempt_files [OF assms, of cfg i w] a by simp
  show ?case
  proof (cases r)
    case None
    then show ?thesis
      using Cons.IH [of w1] a f by auto
  next
    case (Some answer)
    then show ?thesis
      using a f by simp
  qed
qed

lemma retry_loop_save_calls: "save_calls w \<le> save_calls (snd (retry_loop E cfg ns w))"
proof (induction ns arbitrary: w)
  case Nil
  show ?case by simp
next
  case (Cons i ns)
  obtain r w1 where a: "attempt E cfg i w = (r, w1)"
    by (cases "attempt E cfg i w")
  have s: "save_calls w \<le> save_calls w1"
    using attempt_save_calls [of w E cfg i] a by simp
  show ?case
  proof (cases r)
    case None
    then show ?thesis
      using Cons.IH [of w1] a s by (simp add: le_trans)
  next
    case (Some answer)
    then show ?thesis
      using a s by simp
  qed
qed

lemma retry_loop_removes:
  assumes rm: "\<forall>n. remove_raises E n = None"
    and n: "save_calls w \<le> n" "n < save_calls (snd (retry_loop E cfg ns w))"
      "save_raises E n = None"
  shows "get_temp_path E cfg n ''.wav'' \<notin> files (snd (retry_loop E cfg ns w))"
  using n
proof (induction ns arbitrary: w)
  case Nil
  then show ?case by simp
next
  case (Cons i ns)
  obtain r w1 where a: "attempt E cfg i w = (r, w1)"
    by (cases "attempt E cfg i w")
  have s: "save_calls w \<le> save_calls w1" "save_calls w1 \<le> Suc (save_calls w)"
    using attempt_save_calls [of w E cfg i] a by simp_all
  have first: "get_temp_path E cfg n ''.wav'' \<notin> files w1" if "n < save_calls w1"
  proof -
    have "n = save_calls w" and "save_calls w1 = Suc (save_calls w)"
      using that s Cons.prems(1) by simp_all
    then show ?thesis
      using attempt_removes [OF rm, of cfg i w] a Cons.prems(3) by simp
  qed
  show ?case
  proof (cases r)
    case (Some answer)
    then have "retry_loop E cfg (i # ns) w = (Inr answer, w1)"
      using a by simp
    then show ?thesis
      using first Cons.prems(2) by simp
  next
    case None
    then have e: "retry_loop E cfg (i # ns) w = retry_loop E cfg ns w1"
      using a by simp
    show ?thesis
    proof (cases "n < save_calls w1")
      case True
      then show ?thesis
        using first retry_loop_files [OF rm, of cfg ns w1] e by auto
    next
      case False
      then show ?thesis
        using Cons.IH [of w1] Cons.prems(2,3) e by simp
    qed
  qed
qed

lemma get_voice_input_prompt_spoken:
  assumes "prompt = None \<or> prompt = Some [] \<or> tts_raises E (tts_calls w) = None"
  shows "\<exists>w0. get_voice_input E cfg prompt w =
                retry_loop E cfg [0..<nat (max_retries cfg)] w0 \<and>
              record_calls w0 = record_calls w \<and> save_calls w0 = save_calls w \<and>
              stt_calls w0 = stt_calls w \<and> files w0 = files w"
proof (cases "prompt = None \<or> prompt = Some []")
  case True
  then have "get_voice_input E cfg prompt w = retry_loop E cfg [0..<nat (max_retries cfg)] w"
    by (auto simp: get_voice_input_def)
  then show ?thesis by blast
next
  case False
  then obtain p where p: "prompt = Some p" "p \<noteq> []"
    by (cases prompt) auto
  have "tts_raises E (tts_calls w) = None"
    using assms False by blast
  then have "get_voice_input E cfg prompt w =
               retry_loop E cfg [0..<nat (max_retries cfg)]
                 (w\<lparr>tts_calls := Suc (tts_calls w), spoken := spoken w @ [p]\<rparr>)"
    using p by (simp add: get_voice_input_def text_to_speech_ok)
  then show ?thesis by force
qed

lemma attempt_file_stays:
  assumes "\<forall>n. remove_raises E n \<noteq> None"
  shows "files w \<subseteq> files (snd (attempt E cfg i w))"
    and "record_raises E (record_calls w) = None \<Longrightarrow> save_raises E (save_calls w) = None \<Longrightarrow>
         get_temp_path E cfg (save_calls w) ''.wav'' \<in> files (snd (attempt E cfg i w))"
  using assms [rule_format, of "remove_calls w"]
  by (auto simp: voice_defs split: option.splits sum.splits)

lemma retry_loop_files_stay:
  assumes "\<forall>n. remove_raises E n \<noteq> None"
  shows "files w \<subseteq> files (snd (retry_loop E cfg ns w))"
proof (induction ns arbitrary: w)
  case Nil
  show ?case by simp
next
  case (Cons i ns)
  obtain r w1 where a: "attempt E cfg i w = (r, w1)"
    by (cases "attempt E cfg i w")
  have f: "files w \<subseteq> files w1"
    using attempt_file_stays(1) [OF assms, of w cfg i] a by simp
  show ?case
  proof (cases r)
    case None
    then show ?thesis
      using Cons.IH [of w1] a f by auto
  next
    case (Some answer)
    then show ?thesis
      using a f by simp
  qed
qed

text \<open>
  C3. Let speech-to-text raise on every call. When the prompt, if there is one, is spoken
  without an exception, \<open>get_voice_input\<close> records \<open>max_retries\<close> times (no time for a
  negative setting) and raises \<open>ValueError("Maximum retries reached")\<close>; where the file
  system removes a file when asked, it leaves behind none of the audio files that the
  attempts saved and no file that was not there before; where recording and saving never
  fail either, it also saves and transcribes \<open>max_retries\<close> times. When speaking the
  prompt raises, \<open>get_voice_input\<close> raises that exception and records nothing.
\<close>

theorem get_voice_input_retries_exhausted:
  assumes stt: "\<forall>n. isl (transcribe E n)"
  shows "(prompt = None \<or> prompt = Some [] \<or> tts_raises E (tts_calls w) = None \<longrightarrow>
            fst (get_voice_input E cfg prompt w) = Inl (ValueError ''Maximum retries reached'') \<and>
            record_calls (snd (get_voice_input E cfg prompt w)) =
              record_calls w + nat (max_retries cfg) \<and>
            ((\<forall>n. remove_raises E n = None) \<longrightarrow>
               files (snd (get_voice_input E cfg prompt w)) \<subseteq> files w \<and>
               (\<forall>n. save_calls w \<le> n \<and> n < save_calls (snd (get_voice_input E cfg prompt w)) \<and>
                    save_raises E n = None \<longrightarrow>
                    get_temp_path E cfg n ''.wav'' \<notin> files (snd (get_voice_input E cfg prompt w)))) \<and>
            ((\<forall>n. record_raises E n = None \<and> save_raises E n = None) \<longrightarrow>
               save_calls (snd (get_voice_input E cfg prompt w)) =
                 save_calls w + nat (max_retries cfg) \<and>
               stt_calls (snd (get_voice_input E cfg prompt w)) =
                 stt_calls w + nat (max_retries cfg))) \<and>
         (\<forall>p m. prompt = Some p \<and> p \<noteq> [] \<and> tts_raises E (tts_calls w) = Some m \<longrightarrow>
            fst (get_voice_input E cfg prompt w) = Inl (CollaboratorError m) \<and>
            record_calls (snd (get_voice_input E cfg prompt w)) = record_calls w)"
proof -
  let ?ns = "[0..<nat (max_retries cfg)]"
  have a: "fst (get_voice_input E cfg prompt w) = Inl (ValueError ''Maximum retries reached'') \<and>
            record_calls (snd (get_voice_input E cfg prompt w)) =
              record_calls w + nat (max_retries cfg) \<and>
            ((\<forall>n. remove_raises E n = None) \<longrightarrow>
               files (snd (get_voice_input E cfg prompt w)) \<subseteq> files w \<and>
               (\<forall>n. save_calls w \<le> n \<and> n < save_calls (snd (get_voice_input E cfg prompt w)) \<and>
                    save_raises E n = None \<longrightarrow>
                    get_temp_path E cfg n ''.wav'' \<notin> files (snd (get_voice_input E cfg prompt w)))) \<and>
            ((\<forall>n. record_raises E n = None \<and> save_raises E n = None) \<longrightarrow>
               save_calls (snd (get_voice_input E cfg prompt w)) =
                 save_calls w + nat (max_retries cfg) \<and>
               stt_calls (snd (get_voice_input E cfg prompt w)) =
                 stt_calls w + nat (max_retries cfg))"
    if prompt: "prompt = None \<or> prompt = Some [] \<or> tts_raises E (tts_calls w) = None"
  proof -
    obtain w0 where g: "get_voice_input E cfg prompt w = retry_loop E cfg ?ns w0"
      and k: "record_calls w0 = record_calls w" "save_calls w0 = save_calls w"
        "stt_calls w0 = stt_calls w" "files w0 = files w"
      using get_voice_input_prompt_spoken [OF prompt] by blast
    have "fst (retry_loop E cfg ?ns w0) = Inl (ValueError ''Maximum retries reached'')"
      and "record_calls (snd (retry_loop E cfg ?ns w0)) = record_calls w + nat (max_retries cfg)"
      using retry_loop_exhausted [OF stt, of cfg ?ns w0] k by simp_all
    moreover have "files (snd (retry_loop E cfg ?ns w0)) \<subseteq> files w"
      if "\<forall>n. remove_raises E n = None"
      using retry_loop_files [OF that, of cfg ?ns w0] k by simp
    moreover have "get_temp_path E cfg n ''.wav'' \<notin> files (snd (retry_loop E cfg ?ns w0))"
      if "\<forall>n. remove_raises E n = None" "save_calls w \<le> n"
        "n < save_calls (snd (retry_loop E cfg ?ns w0))" "save_raises E n = None" for n
      using retry_loop_removes [OF that(1), of w0 n cfg ?ns] that k by simp
    moreover have "save_calls (snd (retry_loop E cfg ?ns w0)) = save_calls w + nat (max_retries cfg) \<and>
        stt_calls (snd (retry_loop E cfg ?ns w0)) = stt_calls w + nat (max_retries cfg)"
      if "\<forall>n. record_raises E n = None \<and> save_raises E n = None"
      using retry_loop_all_called [OF stt that, of cfg ?ns w0] k by simp
    ultimately show ?thesis
      unfolding g by blast
  qed
  have b: "fst (get_voice_input E cfg prompt w) = Inl (CollaboratorError m) \<and>
           record_calls (snd (get_voice_input E cfg prompt w)) = record_calls w"
    if "prompt = Some p" "p \<noteq> []" "tts_raises E (tts_calls w) = Some m" for p m
    using that by (simp add: get_voice_input_def text_to_speech_def log_def log_text_def Let_def)
  show ?thesis
    using a b by blast
qed

theorem get_voice_input_retries_exhausted_witness:
  "fst (get_voice_input (reliable_env (\<lambda>n. Inl ''service unavailable'')) (default_config ''/home/u'')
          (Some ''What would you like to do?'') empty_world) =
     Inl (ValueError ''Maximum retries reached'') \<and>
   record_calls (snd (get_voice_input (reliable_env (\<lambda>n. Inl ''service unavailable''))
          (default_config ''/home/u'') (Some ''What would you like to do?'') empty_world)) = 3 \<and>
   stt_calls (snd (get_voice_input (reliable_env (\<lambda>n. Inl ''service unavailable''))
          (default_config ''/home/u'') (Some ''What would you like to do?'') empty_world)) = 3 \<and>
   files (snd (get_voice_input (reliable_env (\<lambda>n. Inl ''service unavailable''))
          (default_config ''/home/u'') (Some ''What would you like to do?'') empty_world)) = {}"
proof -
  let ?E = "reliable_env (\<lambda>n. Inl ''service unavailable'')"
  have stt: "\<forall>n. isl (transcribe ?E n)" and rm: "\<forall>n. remove_raises ?E n = None"
    and ok: "\<forall>n. record_raises ?E n = None \<and> save_raises ?E n = None"
    by (simp_all add: reliable_env_def)
  have prompt: "tts_raises ?E (tts_calls empty_world) = None"
    by (simp add: reliable_env_def)
  have m: "nat (max_retries (default_config ''/home/u'')) = 3"
    by (simp add: default_config_def)
  have e: "record_calls empty_world = 0" "stt_calls empty_world = 0" "files empty_world = {}"
    by (simp_all add: empty_world_def)
  show ?thesis
    using get_voice_input_retries_exhausted
      [OF stt, of "Some ''What would you like to do?''" empty_world "default_config ''/home/u''"]
      ok rm prompt
    by (simp add: m e)
qed

text \<open>
  With speech-to-text raising on every call and text-to-speech unavailable too, the prompt
  raises and no attempt is made; with \<open>os.remove\<close> failing, the attempts are made and
  the audio file of the first one is still there afterwards.
\<close>

theorem get_voice_input_without_attempt_or_cleanup:
  "fst (get_voice_input speech_down_env (default_config ''/home/u'') (Some name_prompt)
          empty_world) = Inl (CollaboratorError ''service unavailable'') \<and>
   record_calls (snd (get_voice_input speech_down_env (default_config ''/home/u'')
          (Some name_prompt) empty_world)) = 0 \<and>
   fst (get_voice_input remove_fails_env (default_config ''/home/u'') (Some name_prompt)
          empty_world) = Inl (ValueError ''Maximum retries reached'') \<and>
   ''/home/u/voice_scheduler_temp/temp_1700000000_4242.wav'' \<in>
     files (snd (get_voice_input remove_fails_env (default_config ''/home/u'') (Some name_prompt)
          empty_world))"
proof -
  let ?E = remove_fails_env
  let ?cfg = "default_config ''/home/u''"
  let ?w0 = "empty_world\<lparr>tts_calls := Suc 0, spoken := [name_prompt]\<rparr>"
  have a: "fst (get_voice_input speech_down_env ?cfg (Some name_prompt) empty_world) =
             Inl (CollaboratorError ''service unavailable'')"
    "record_calls (snd (get_voice_input speech_down_env ?cfg (Some name_prompt) empty_world)) = 0"
    by (simp_all add: get_voice_input_def text_to_speech_def log_def log_text_def Let_def
        speech_down_env_def reliable_env_def empty_world_def name_prompt_def)
  have s: "\<forall>n. isl (transcribe ?E n)" "\<forall>n. remove_raises ?E n \<noteq> None"
    "record_raises ?E n = None" "save_raises ?E n = None" for n
    by (simp_all add: remove_fails_env_def reliable_env_def)
  have u: "[0..<nat (max_retries ?cfg)] = [0, 1, 2]"
    by (simp add: default_config_def upt_rec)
  have g: "get_voice_input ?E ?cfg (Some name_prompt) empty_world = retry_loop ?E ?cfg [0, 1, 2] ?w0"
    by (simp add: get_voice_input_def text_to_speech_def Let_def u name_prompt_def
        remove_fails_env_def reliable_env_def empty_world_def)
  have p: "get_temp_path ?E ?cfg (save_calls ?w0) ''.wav'' =
             ''/home/u/voice_scheduler_temp/temp_1700000000_4242.wav''"
    by (simp add: get_temp_path_def os_path_join_def remove_fails_env_def reliable_env_def
        default_config_def empty_world_def show_nat.simps digit_char_def)
  have b: "fst (retry_loop ?E ?cfg [0, 1, 2] ?w0) = Inl (ValueError ''Maximum retries reached'')"
    using retry_loop_exhausted [OF s(1), of ?cfg "[0, 1, 2]" ?w0] by simp
  have n: "fst (attempt ?E ?cfg 0 ?w0) = None"
    using s(1) by (rule attempt_stt_raises)
  then have r: "retry_loop ?E ?cfg [0, 1, 2] ?w0 =
      retry_loop ?E ?cfg [1, 2] (snd (attempt ?E ?cfg 0 ?w0))"
    by (cases "attempt ?E ?cfg 0 ?w0") simp
  have "get_temp_path ?E ?cfg (save_calls ?w0) ''.wav'' \<in> files (snd (attempt ?E ?cfg 0 ?w0))"
    using s by (intro attempt_file_stays(2)) simp_all
  then have "get_temp_path ?E ?cfg (save_calls ?w0) ''.wav'' \<in>
      files (snd (retry_loop ?E ?cfg [1, 2] (snd (attempt ?E ?cfg 0 ?w0))))"
    using retry_loop_files_stay [OF s(2), of "snd (attempt ?E ?cfg 0 ?w0)" ?cfg "[1, 2]"] by blast
  then show ?thesis
    using a b unfolding g r p by simp
qed

subsection \<open>Blank transcriptions\<close>









subsection \<open>Creating a task\<close>

lemma error_spoken:
  assumes "tts_raises E (tts_calls w1) = None"
  shows "text_to_speech E msg (log ERROR m w1) =
           (Inr (), (log ERROR m w1)\<lparr>tts_calls := Suc (tts_calls w1), spoken := spoken w1 @ [msg]\<rparr>)"
  using assms by (simp add: text_to_speech_def log_def log_text_def Let_def)

lemma handler_speaks:
  assumes "create_task_body E cfg w = (Inl e, w1)" and "tts_raises E (tts_calls w1) = None"
  shows "fst (create_task E cfg w) = Inr None \<and>
         spoken (snd (create_task E cfg w)) = spoken w1 @ [''Error creating task: '' @ str_of e]"
  using assms by (simp add: create_task_def error_spoken)

lemma create_task_body_name_fails:
  assumes "fst (get_voice_input E cfg (Some name_prompt) w) = Inl e"
  shows "create_task_body E cfg w = (Inl e, snd (get_voice_input E cfg (Some name_prompt) w))"
  using assms
  by (cases "get_voice_input E cfg (Some name_prompt) w") (simp add: create_task_body_def)

lemma create_task_body_date_fails:
  assumes "fst (get_voice_input E cfg (Some name_prompt) w) = Inr n"
    and "fst (get_voice_input E cfg (Some due_prompt)
           (snd (get_voice_input E cfg (Some name_prompt) w))) = Inl e"
  shows "create_task_body E cfg w =
           (Inl e, snd (get_voice_input E cfg (Some due_prompt)
              (snd (get_voice_input E cfg (Some name_prompt) w))))"
  using assms
  by (cases "get_voice_input E cfg (Some name_prompt) w";
      cases "get_voice_input E cfg (Some due_prompt)
        (snd (get_voice_input E cfg (Some name_prompt) w))")
    (simp add: create_task_body_def)

lemma create_task_body_parse_fails:
  assumes "fst (get_voice_input E cfg (Some name_prompt) w) = Inr n"
    and "fst (get_voice_input E cfg (Some due_prompt)
           (snd (get_voice_input E cfg (Some name_prompt) w))) = Inr d"
    and "parse_datetime (dateparser_parse E) d = Inl e"
  shows "create_task_body E cfg w =
           (Inl e, snd (get_voice_input E cfg (Some due_prompt)
              (snd (get_voice_input E cfg (Some name_prompt) w))))"
  using assms
  by (cases "get_voice_input E cfg (Some name_prompt) w";
      cases "get_voice_input E cfg (Some due_prompt)
        (snd (get_voice_input E cfg (Some name_prompt) w))")
    (simp add: create_task_body_def)

lemma parse_datetime_Inr:
  assumes "parse_datetime resolver d = Inr r"
  shows "\<exists>dt. resolver d = Some dt"
  using assms by (cases "resolver d") (simp_all add: parse_datetime_def)

lemma create_task_body_task:
  assumes "create_task_body E cfg w = (Inr task, w')"
  shows "\<exists>d dd tt. fst (get_voice_input E cfg (Some name_prompt) w) = Inr (name task) \<and>
             fst (get_voice_input E cfg (Some due_prompt)
               (snd (get_voice_input E cfg (Some name_prompt) w))) = Inr d \<and>
             parse_datetime (dateparser_parse E) d = Inr (dd, tt) \<and>
             due_date task = ustr dd \<and> deadline_time task = ustr tt"
  using assms
  by (cases "get_voice_input E cfg (Some name_prompt) w";
      cases "get_voice_input E cfg (Some due_prompt)
        (snd (get_voice_input E cfg (Some name_prompt) w))")
    (auto simp: create_task_body_def split: sum.splits prod.splits)

lemma create_task_Some:
  assumes "fst (create_task E cfg w) = Inr (Some task)"
  shows "\<exists>w'. create_task_body E cfg w = (Inr task, w')"
  using assms
  by (cases "create_task_body E cfg w")
    (auto simp: create_task_def split: sum.splits prod.splits)

lemma handler_raises:
  assumes "create_task_body E cfg w = (Inl e, w1)" and "tts_raises E (tts_calls w1) = Some m"
  shows "fst (create_task E cfg w) = Inl (CollaboratorError m)"
  using assms by (simp add: create_task_def text_to_speech_def log_def log_text_def Let_def)

lemma get_voice_input_first_answer:
  assumes "p \<noteq> []" and "tts_raises E (tts_calls w) = None"
    and "record_raises E (record_calls w) = None" and "save_raises E (save_calls w) = None"
    and "transcribe E (stt_calls w) = Inr t" and "strip t \<noteq> []" and "0 < max_retries cfg"
  shows "fst (get_voice_input E cfg (Some p) w) = Inr (strip t)"
    and "spoken (snd (get_voice_input E cfg (Some p) w)) = spoken w @ [p]"
    and "tts_calls (snd (get_voice_input E cfg (Some p) w)) = Suc (tts_calls w)"
    and "record_calls (snd (get_voice_input E cfg (Some p) w)) = Suc (record_calls w)"
    and "save_calls (snd (get_voice_input E cfg (Some p) w)) = Suc (save_calls w)"
    and "stt_calls (snd (get_voice_input E cfg (Some p) w)) = Suc (stt_calls w)"
proof -
  have u: "[0..<nat (max_retries cfg)] = 0 # [1..<nat (max_retries cfg)]"
    using assms(7) by (simp add: upt_conv_Cons)
  show "fst (get_voice_input E cfg (Some p) w) = Inr (strip t)"
    and "spoken (snd (get_voice_input E cfg (Some p) w)) = spoken w @ [p]"
    and "tts_calls (snd (get_voice_input E cfg (Some p) w)) = Suc (tts_calls w)"
    and "record_calls (snd (get_voice_input E cfg (Some p) w)) = Suc (record_calls w)"
    and "save_calls (snd (get_voice_input E cfg (Some p) w)) = Suc (save_calls w)"
    and "stt_calls (snd (get_voice_input E cfg (Some p) w)) = Suc (stt_calls w)"
    using assms(1-6)
    by (simp_all add: get_voice_input_def u voice_defs split: option.splits)
qed

lemma strip_pay_rent: "strip (ustr ''pay rent'') = ustr ''pay rent''"
  by (simp add: strip_def is_space_def ustr_def)

lemma strip_blue_moon: "strip (ustr ''next blue moon'') = ustr ''next blue moon''"
  by (simp add: strip_def is_space_def ustr_def)

text \<open>
  C8. Whichever of the three steps of \<open>create_task\<close> fails (the capture of the name, the
  capture of the date text, the normalisation of the date), the handler calls
  text-to-speech with the description \<open>Error creating task: ...\<close> of the error. When that
  call succeeds the description is spoken and \<open>create_task\<close> returns \<open>None\<close>; when that call
  raises, \<open>create_task\<close> raises its error. A task that is returned carries the captured
  name and the date and time that \<open>parse_datetime\<close> gave for the captured date text, which
  the resolver did resolve.
\<close>

theorem create_task_failure:
  "let g1 = get_voice_input E cfg (Some name_prompt) w;
       g2 = get_voice_input E cfg (Some due_prompt) (snd g1);
       r = create_task E cfg w;
       aborted = (\<lambda>e w1.
         case tts_raises E (tts_calls w1) of
           None \<Rightarrow> fst r = Inr None \<and>
                   spoken (snd r) = spoken w1 @ [''Error creating task: '' @ str_of e]
         | Some m \<Rightarrow> fst r = Inl (CollaboratorError m))
   in (\<forall>e. fst g1 = Inl e \<longrightarrow> aborted e (snd g1)) \<and>
      (\<forall>n e. fst g1 = Inr n \<and> fst g2 = Inl e \<longrightarrow> aborted e (snd g2)) \<and>
      (\<forall>n d e. fst g1 = Inr n \<and> fst g2 = Inr d \<and>
           parse_datetime (dateparser_parse E) d = Inl e \<longrightarrow> aborted e (snd g2)) \<and>
      (\<forall>task. fst r = Inr (Some task) \<longrightarrow>
         (\<exists>d dt dd tt. fst g1 = Inr (name task) \<and> fst g2 = Inr d \<and>
            dateparser_parse E d = Some dt \<and>
            parse_datetime (dateparser_parse E) d = Inr (dd, tt) \<and>
            due_date task = ustr dd \<and> deadline_time task = ustr tt))"
proof -
  let ?g1 = "get_voice_input E cfg (Some name_prompt) w"
  let ?g2 = "get_voice_input E cfg (Some due_prompt) (snd ?g1)"
  let ?r = "create_task E cfg w"
  have ab: "case tts_raises E (tts_calls w1) of
              None \<Rightarrow> fst ?r = Inr None \<and>
                      spoken (snd ?r) = spoken w1 @ [''Error creating task: '' @ str_of e]
            | Some m \<Rightarrow> fst ?r = Inl (CollaboratorError m)"
    if "create_task_body E cfg w = (Inl e, w1)" for e w1
  proof (cases "tts_raises E (tts_calls w1)")
    case None
    then show ?thesis
      using handler_speaks [OF that] by simp
  next
    case (Some m)
    then show ?thesis
      using handler_raises [OF that] by simp
  qed
  have a: "\<forall>e. fst ?g1 = Inl e \<longrightarrow>
             (case tts_raises E (tts_calls (snd ?g1)) of
                None \<Rightarrow> fst ?r = Inr None \<and>
                        spoken (snd ?r) = spoken (snd ?g1) @ [''Error creating task: '' @ str_of e]
              | Some m \<Rightarrow> fst ?r = Inl (CollaboratorError m))"
    using ab create_task_body_name_fails by blast
  have b: "\<forall>n e. fst ?g1 = Inr n \<and> fst ?g2 = Inl e \<longrightarrow>
             (case tts_raises E (tts_calls (snd ?g2)) of
                None \<Rightarrow> fst ?r = Inr None \<and>
                        spoken (snd ?r) = spoken (snd ?g2) @ [''Error creating task: '' @ str_of e]
              | Some m \<Rightarrow> fst ?r = Inl (CollaboratorError m))"
    using ab create_task_body_date_fails by blast
  have c: "\<forall>n d e. fst ?g1 = Inr n \<and> fst ?g2 = Inr d \<and>
               parse_datetime (dateparser_parse E) d = Inl e \<longrightarrow>
             (case tts_raises E (tts_calls (snd ?g2)) of
                None \<Rightarrow> fst ?r = Inr None \<and>
                        spoken (snd ?r) = spoken (snd ?g2) @ [''Error creating task: '' @ str_of e]
              | Some m \<Rightarrow> fst ?r = Inl (CollaboratorError m))"
    using ab create_task_body_parse_fails by blast
  have d: "\<forall>task. fst ?r = Inr (Some task) \<longrightarrow>
         (\<exists>d dt dd tt. fst ?g1 = Inr (name task) \<and> fst ?g2 = Inr d \<and>
            dateparser_parse E d = Some dt \<and>
            parse_datetime (dateparser_parse E) d = Inr (dd, tt) \<and>
            due_date task = ustr dd \<and> deadline_time task = ustr tt)"
  proof (intro allI impI)
    fix task
    assume "fst ?r = Inr (Some task)"
    then obtain w' where "create_task_body E cfg w = (Inr task, w')"
      using create_task_Some by blast
    then obtain d dd tt where d: "fst ?g1 = Inr (name task)" "fst ?g2 = Inr d"
      "parse_datetime (dateparser_parse E) d = Inr (dd, tt)"
      "due_date task = ustr dd" "deadline_time task = ustr tt"
      using create_task_body_task by blast
    then obtain dt where "dateparser_parse E d = Some dt"
      using parse_datetime_Inr by blast
    then show "\<exists>d dt dd tt. fst ?g1 = Inr (name task) \<and> fst ?g2 = Inr d \<and>
            dateparser_parse E d = Some dt \<and>
            parse_datetime (dateparser_parse E) d = Inr (dd, tt) \<and>
            due_date task = ustr dd \<and> deadline_time task = ustr tt"
      using d by blast
  qed
  show ?thesis
    unfolding Let_def using a b c d by blast
qed

theorem create_task_failure_witness:
  "fst (create_task
          (reliable_env (\<lambda>n. if n = 0 then Inr (ustr ''pay rent'') else Inr (ustr ''next blue moon'')))
          (default_config ''/home/u'') empty_world) = Inr None \<and>
   spoken (snd (create_task
          (reliable_env (\<lambda>n. if n = 0 then Inr (ustr ''pay rent'') else Inr (ustr ''next blue moon'')))
          (default_config ''/home/u'') empty_world)) =
     [name_prompt, due_prompt, ''Error creating task: Could not parse datetime'']"
proof -
  let ?E = "reliable_env (\<lambda>n. if n = 0 then Inr (ustr ''pay rent'') else Inr (ustr ''next blue moon''))"
  let ?cfg = "default_config ''/home/u''"
  let ?g1 = "get_voice_input ?E ?cfg (Some name_prompt) empty_world"
  let ?g2 = "get_voice_input ?E ?cfg (Some due_prompt) (snd ?g1)"
  have ok: "tts_raises ?E n = None" "record_raises ?E n = None" "save_raises ?E n = None" for n
    by (simp_all add: reliable_env_def)
  have m: "0 < max_retries ?cfg"
    by (simp add: default_config_def)
  have t0: "transcribe ?E (stt_calls empty_world) = Inr (ustr ''pay rent'')"
    by (simp add: reliable_env_def empty_world_def)
  have p: "name_prompt \<noteq> []" "due_prompt \<noteq> []"
    by (simp_all add: name_prompt_def due_prompt_def)
  have s: "strip (ustr ''pay rent'') \<noteq> []" "strip (ustr ''next blue moon'') \<noteq> []"
    by (simp_all add: strip_def is_space_def ustr_def)
  note a = get_voice_input_first_answer [OF p(1) ok t0 s(1) m]
  have t1: "transcribe ?E (stt_calls (snd ?g1)) = Inr (ustr ''next blue moon'')"
    using a(6) by (simp add: reliable_env_def)
  note b = get_voice_input_first_answer [OF p(2) ok t1 s(2) m]
  have g1: "fst ?g1 = Inr (ustr ''pay rent'')"
    using a(1) by (simp add: strip_pay_rent)
  have g2: "fst ?g2 = Inr (ustr ''next blue moon'')"
    using b(1) by (simp add: strip_blue_moon)
  have e: "parse_datetime (dateparser_parse ?E) (ustr ''next blue moon'') =
             Inl (ValueError ''Could not parse datetime'')"
    by (simp add: parse_datetime_def reliable_env_def example_resolver_def ustr_def)
  have sp: "spoken (snd ?g2) = [name_prompt, due_prompt]"
    using a(2) b(2) by (simp add: empty_world_def)
  show ?thesis
    using create_task_failure [of ?E ?cfg empty_world] g1 g2 e sp ok(1)
    by (simp add: Let_def)
qed

text \<open>
  With the text-to-speech service unavailable the capture of the name fails at its prompt,
  the handler cannot speak either, and \<open>create_task\<close> raises: it does not return \<open>None\<close>,
  and nothing has been spoken.
\<close>

theorem create_task_raises_while_speech_is_down:
  "fst (get_voice_input tts_down_env (default_config ''/home/u'') (Some name_prompt) empty_world) =
     Inl (CollaboratorError ''service unavailable'') \<and>
   fst (create_task tts_down_env (default_config ''/home/u'') empty_world) =
     Inl (CollaboratorError ''service unavailable'') \<and>
   fst (create_task tts_down_env (default_config ''/home/u'') empty_world) \<noteq> Inr None \<and>
   spoken (snd (create_task tts_down_env (default_config ''/home/u'') empty_world)) = []"
  by (simp add: create_task_def create_task_body_def get_voice_input_def text_to_speech_def
      log_def log_text_def Let_def tts_down_env_def reliable_env_def empty_world_def name_prompt_def)

end
